theory Spec2Isabelle
  imports Complex_Main
begin

section \<open>The valuation engine of dcf.py\<close>

text \<open>
  The script \<^verbatim>\<open>dcf.py\<close> is one straight-line computation, executed from a fresh
  namespace on every submitted request (lines 103 to 162). Each variable the script
  assigns is modelled by a function of the same name over the values it is computed from.

  Numbers. The script computes on IEEE double-precision values (numpy \<^verbatim>\<open>float64\<close> and
  Python \<^verbatim>\<open>float\<close>). A finite value is modelled by a \<^typ>\<open>real\<close> and the four operations
  on finite values by the exact operations on \<^typ>\<open>real\<close>: rounding and overflow are not
  modelled. What is modelled is where a numpy operation leaves the finite values: a
  division by zero and a fractional power of a negative base give \<^verbatim>\<open>inf\<close>, \<^verbatim>\<open>-inf\<close> or
  \<^verbatim>\<open>nan\<close> (with a warning, not an exception), and the script goes on with that value.
\<close>

subsection \<open>Values and errors\<close>

datatype py_error = NameError | IndexError | ValueError

text \<open>A numpy value: a finite number, or one of \<^verbatim>\<open>inf\<close>, \<^verbatim>\<open>-inf\<close>, \<^verbatim>\<open>nan\<close>.\<close>

datatype npfloat = Fin real | NonFinite

fun np_add :: "npfloat \<Rightarrow> npfloat \<Rightarrow> npfloat" where
  "np_add (Fin a) (Fin b) = Fin (a + b)"
| "np_add _ _ = NonFinite"

fun np_sub :: "npfloat \<Rightarrow> npfloat \<Rightarrow> npfloat" where
  "np_sub (Fin a) (Fin b) = Fin (a - b)"
| "np_sub _ _ = NonFinite"

fun np_mul :: "npfloat \<Rightarrow> npfloat \<Rightarrow> npfloat" where
  "np_mul (Fin a) (Fin b) = Fin (a * b)"
| "np_mul _ _ = NonFinite"

text \<open>
  Division by a finite divisor (every divisor of the script is one): a zero divisor
  gives \<^verbatim>\<open>inf\<close>, \<^verbatim>\<open>-inf\<close> or \<^verbatim>\<open>nan\<close>.
\<close>

fun np_div :: "npfloat \<Rightarrow> real \<Rightarrow> npfloat" where
  "np_div (Fin a) d = (if d = 0 then NonFinite else Fin (a / d))"
| "np_div NonFinite d = NonFinite"

text \<open>
  \<^verbatim>\<open>x ** y\<close> on a \<^verbatim>\<open>float64\<close> base with the non-integer exponent \<^verbatim>\<open>y = 1/9\<close>:
  \<^verbatim>\<open>nan\<close> for a negative base, \<open>0\<close> for base \<open>0\<close>.
\<close>

definition np_power :: "real \<Rightarrow> real \<Rightarrow> npfloat" where
  "np_power x y = (if x < 0 then NonFinite else Fin (x powr y))"

text \<open>\<^verbatim>\<open>np.sum\<close> of a one-dimensional array.\<close>

definition np_sum :: "npfloat list \<Rightarrow> npfloat" where
  "np_sum xs = foldl np_add (Fin 0) xs"

subsection \<open>Financial statements\<close>

text \<open>
  A statement is a pandas \<^verbatim>\<open>DataFrame\<close> after \<^verbatim>\<open>fillna(0)\<close>: its index holds the
  line-item labels, its columns the reporting dates, in the order the provider gives them
  (the script reverses the first four, lines 117 and 120, to obtain oldest first).
  A row is the list of its cells in column order, each cell with the year of its column
  date; a frame maps a label of its index to the row.
\<close>

type_synonym series = "(int \<times> real) list"

type_synonym dataframe = "string \<rightharpoonup> series"

text \<open>
  \<^verbatim>\<open>def safe_get(df, label, default=0):\<close>
  \<^verbatim>\<open>    return df.loc[label].values[0] if label in df.index else default\<close>
  Reading \<^verbatim>\<open>values[0]\<close> of a row with no cell raises \<^verbatim>\<open>IndexError\<close>.
\<close>

definition safe_get :: "dataframe \<Rightarrow> string \<Rightarrow> real \<Rightarrow> py_error + real" where
  "safe_get df label default_value =
     (case df label of
        Some row \<Rightarrow> (case row of [] \<Rightarrow> Inl IndexError | c # _ \<Rightarrow> Inr (snd c))
      | None \<Rightarrow> Inr default_value)"

subsection \<open>Free cash flow forecast (lines 114 to 126)\<close>

definition fcf_line :: string where
  "fcf_line = ''Free Cash Flow''"

text \<open>\<^verbatim>\<open>cashflow.loc[fcf_line].head(4)[::-1]\<close>\<close>

definition fcf_raw :: "series \<Rightarrow> series" where
  "fcf_raw row = rev (take 4 row)"

definition years :: "series \<Rightarrow> int list" where
  "years raw = map fst raw"

text \<open>
  \<^verbatim>\<open>np.mean(fcf_raw.values)\<close>. On an empty array numpy returns \<^verbatim>\<open>nan\<close>; the script then
  fails at \<^verbatim>\<open>years[-1]\<close> before the value is used, see \<open>fcf_block\<close> below.
\<close>

definition base_value :: "series \<Rightarrow> real" where
  "base_value raw = sum_list (map snd raw) / real (length raw)"

text \<open>\<^verbatim>\<open>[years[-1] + i for i in range(1, 6)]\<close>\<close>

definition forecast_years :: "int list \<Rightarrow> py_error + int list" where
  "forecast_years ys =
     (if ys = [] then Inl IndexError else Inr (map (\<lambda>i. last ys + int i) [1..<6]))"

definition growth_rate :: real where
  "growth_rate = 0.17"

text \<open>\<^verbatim>\<open>[base_value * (1 + growth_rate) ** i for i in range(1, 6)]\<close>\<close>

definition fcf_forecast :: "real \<Rightarrow> real list" where
  "fcf_forecast base = map (\<lambda>i. base * (1 + growth_rate) ^ i) [1..<6]"

text \<open>\<^verbatim>\<open>fcf_forecast[-1] * 1.03\<close>, on the five-element forecast.\<close>

definition terminal_value :: "real list \<Rightarrow> real" where
  "terminal_value forecast = last forecast * 1.03"

text \<open>
  The names bound when the block is left. In the \<^verbatim>\<open>else\<close> branch only \<^verbatim>\<open>fcf_forecast\<close>
  and \<^verbatim>\<open>terminal_value\<close> are assigned: \<^verbatim>\<open>fcf_raw\<close> stays unbound (\<open>None\<close>).
\<close>

record forecast_env =
  env_fcf_raw :: "series option"
  env_fcf_forecast :: "real list"
  env_terminal_value :: real

definition fcf_block :: "dataframe \<Rightarrow> py_error + forecast_env" where
  "fcf_block cashflow =
     (case cashflow fcf_line of
        Some row \<Rightarrow>
          (let raw = fcf_raw row in
           case forecast_years (years raw) of
             Inl e \<Rightarrow> Inl e
           | Inr fys \<Rightarrow>
               (let forecast = fcf_forecast (base_value raw) in
                Inr \<lparr>env_fcf_raw = Some raw,
                     env_fcf_forecast = forecast,
                     env_terminal_value = terminal_value forecast\<rparr>))
      | None \<Rightarrow>
          Inr \<lparr>env_fcf_raw = None,
               env_fcf_forecast = replicate 5 0,
               env_terminal_value = 0\<rparr>)"

subsection \<open>Growth rate of the forecast (line 129)\<close>

text \<open>
  \<^verbatim>\<open>fcf_cagr = ((fcf_forecast[-1] / fcf_raw.values[0]) ** (1/9)) - 1 if fcf_raw.values[0] else 0\<close>
  The condition is evaluated first: an unbound \<^verbatim>\<open>fcf_raw\<close> raises \<^verbatim>\<open>NameError\<close>.
\<close>

definition fcf_cagr :: "real list \<Rightarrow> series option \<Rightarrow> py_error + npfloat" where
  "fcf_cagr forecast raw =
     (case raw of
        None \<Rightarrow> Inl NameError
      | Some r \<Rightarrow>
          (case r of
             [] \<Rightarrow> Inl IndexError
           | c # _ \<Rightarrow>
               if snd c \<noteq> 0
               then (if forecast = [] then Inl IndexError
                     else Inr (np_sub (np_power (last forecast / snd c) (1 / 9)) (Fin 1)))
               else Inr (Fin 0)))"

subsection \<open>Capital structure (lines 132 to 136)\<close>

record capital_structure =
  cs_total_equity :: real
  cs_total_debt :: real
  cs_cash :: real
  cs_net_debt :: real
  cs_shares_outstanding :: real

definition net_debt :: "real \<Rightarrow> real \<Rightarrow> real" where
  "net_debt total_debt cash = total_debt - cash"

definition capital_structure :: "dataframe \<Rightarrow> py_error + capital_structure" where
  "capital_structure balance_sheet =
     (case safe_get balance_sheet ''Total Equity Gross Minority Interest'' 0 of
        Inl e \<Rightarrow> Inl e
      | Inr total_equity \<Rightarrow>
     (case safe_get balance_sheet ''Total Debt'' 0 of
        Inl e \<Rightarrow> Inl e
      | Inr total_debt \<Rightarrow>
     (case safe_get balance_sheet ''Cash And Cash Equivalents'' 0 of
        Inl e \<Rightarrow> Inl e
      | Inr cash \<Rightarrow>
     (case safe_get balance_sheet ''Ordinary Shares Number'' 0 of
        Inl e \<Rightarrow> Inl e
      | Inr shares_outstanding \<Rightarrow>
          Inr \<lparr>cs_total_equity = total_equity,
               cs_total_debt = total_debt,
               cs_cash = cash,
               cs_net_debt = net_debt total_debt cash,
               cs_shares_outstanding = shares_outstanding\<rparr>))))"

subsection \<open>Discount rate (lines 138 to 153)\<close>

text \<open>
  \<^verbatim>\<open>pretax_cod = (interest_expense / total_debt * 100) if interest_expense and total_debt else 5\<close>
  \<^verbatim>\<open>after_tax_cod = pretax_cod * (1 - tax_rate)\<close>
\<close>

definition pretax_cod :: "real \<Rightarrow> real \<Rightarrow> real" where
  "pretax_cod interest_expense total_debt =
     (if interest_expense \<noteq> 0 \<and> total_debt \<noteq> 0
      then interest_expense / total_debt * 100 else 5)"

definition after_tax_cod :: "real \<Rightarrow> real \<Rightarrow> real" where
  "after_tax_cod pretax tax_rate = pretax * (1 - tax_rate)"

text \<open>
  Lines 139 to 142: the two lookups in the income statement, then the two costs.
\<close>

record debt_cost =
  dc_interest_expense :: real
  dc_tax_rate :: real
  dc_pretax_cod :: real
  dc_after_tax_cod :: real

definition cost_of_debt :: "dataframe \<Rightarrow> real \<Rightarrow> py_error + debt_cost" where
  "cost_of_debt income_stmt total_debt =
     (case safe_get income_stmt ''Interest Expense'' 0 of
        Inl e \<Rightarrow> Inl e
      | Inr interest_expense \<Rightarrow>
     (case safe_get income_stmt ''Tax Rate For Calcs'' 0.241 of
        Inl e \<Rightarrow> Inl e
      | Inr tax_rate \<Rightarrow>
          Inr \<lparr>dc_interest_expense = interest_expense,
               dc_tax_rate = tax_rate,
               dc_pretax_cod = pretax_cod interest_expense total_debt,
               dc_after_tax_cod =
                 after_tax_cod (pretax_cod interest_expense total_debt) tax_rate\<rparr>))"

definition equity_risk_premium :: real where
  "equity_risk_premium = 2.9 / 100"

definition country_risk_premium :: real where
  "country_risk_premium = 2.5 / 100"

definition cost_of_equity :: "real \<Rightarrow> real" where
  "cost_of_equity risk_free_rate =
     (risk_free_rate / 100) + equity_risk_premium + country_risk_premium"

definition total_capital :: "real \<Rightarrow> real \<Rightarrow> real" where
  "total_capital total_equity total_debt = total_equity + total_debt"

definition equity_weight :: "real \<Rightarrow> real \<Rightarrow> real" where
  "equity_weight total_equity total_debt =
     (if total_capital total_equity total_debt \<noteq> 0
      then total_equity / total_capital total_equity total_debt else 0)"

definition debt_weight :: "real \<Rightarrow> real \<Rightarrow> real" where
  "debt_weight total_equity total_debt =
     (if total_capital total_equity total_debt \<noteq> 0
      then total_debt / total_capital total_equity total_debt else 0)"

text \<open>
  \<^verbatim>\<open>wacc = (equity_weight * cost_of_equity) + (debt_weight * after_tax_cod / 100) if total_capital else 0.1\<close>
  (the conditional expression binds weakest, so the whole sum is its first branch).
\<close>

definition wacc :: "real \<Rightarrow> real \<Rightarrow> real \<Rightarrow> real \<Rightarrow> real" where
  "wacc total_equity total_debt coe atcod =
     (if total_capital total_equity total_debt \<noteq> 0
      then (equity_weight total_equity total_debt * coe)
           + (debt_weight total_equity total_debt * atcod / 100)
      else 0.1)"

subsection \<open>Present value (lines 155 to 162)\<close>

text \<open>\<^verbatim>\<open>[(1 + wacc) ** i for i in range(1, 6)]\<close>\<close>

definition discount_factors :: "real \<Rightarrow> real list" where
  "discount_factors w = map (\<lambda>i. (1 + w) ^ i) [1..<6]"

text \<open>
  \<^verbatim>\<open>np.array(xs) / ds\<close> on one-dimensional operands: element by element when the
  lengths agree, a one-element operand is broadcast, any other pair of lengths raises
  \<^verbatim>\<open>ValueError\<close>.
\<close>

definition np_divide :: "real list \<Rightarrow> real list \<Rightarrow> py_error + npfloat list" where
  "np_divide xs ds =
     (if length xs = length ds then Inr (map2 (\<lambda>x d. np_div (Fin x) d) xs ds)
      else if length xs = 1 then Inr (map (\<lambda>d. np_div (Fin (hd xs)) d) ds)
      else if length ds = 1 then Inr (map (\<lambda>x. np_div (Fin x) (hd ds)) xs)
      else Inl ValueError)"

definition discounted_fcfs :: "real list \<Rightarrow> real \<Rightarrow> py_error + npfloat list" where
  "discounted_fcfs forecast w = np_divide forecast (discount_factors w)"

definition discounted_terminal :: "real \<Rightarrow> real \<Rightarrow> npfloat" where
  "discounted_terminal tv w = np_div (Fin tv) ((1 + w) ^ 5)"

definition enterprise_value :: "npfloat list \<Rightarrow> npfloat \<Rightarrow> npfloat" where
  "enterprise_value dfs dt = np_add (np_sum dfs) dt"

definition equity_value :: "npfloat \<Rightarrow> real \<Rightarrow> npfloat" where
  "equity_value ev nd = np_sub ev (Fin nd)"

text \<open>\<^verbatim>\<open>intrinsic_value = equity_value / shares_outstanding if shares_outstanding else 0\<close>\<close>

definition intrinsic_value :: "npfloat \<Rightarrow> real \<Rightarrow> npfloat" where
  "intrinsic_value eqv shares_outstanding =
     (if shares_outstanding \<noteq> 0 then np_div eqv shares_outstanding else Fin 0)"

text \<open>
  \<^verbatim>\<open>upside = ((intrinsic_value - market_price) / market_price) * 100\<close>, where
  \<^verbatim>\<open>market_price\<close> is a \<^verbatim>\<open>float64\<close> read from the price history (line 106).
\<close>

definition upside :: "npfloat \<Rightarrow> real \<Rightarrow> npfloat" where
  "upside iv market_price = np_mul (np_div (np_sub iv (Fin market_price)) market_price) (Fin 100)"

subsection \<open>The whole computation (lines 114 to 162)\<close>

text \<open>
  The values the page displays. The script has reached line 162 exactly when the
  computation returns such a record; an exception raised on the way is the \<open>Inl\<close> value.
  The arguments are what lines 105 to 109 fetch (the latest closing price and the three
  statements) and the risk-free rate of the form; the fetching and the rendering after
  line 162 are not part of the model.
\<close>

record valuation =
  v_fcf_forecast :: "real list"
  v_terminal_value :: real
  v_fcf_cagr :: npfloat
  v_capital :: capital_structure
  v_debt_cost :: debt_cost
  v_cost_of_equity :: real
  v_wacc :: real
  v_discounted_fcfs :: "npfloat list"
  v_discounted_terminal :: npfloat
  v_enterprise_value :: npfloat
  v_equity_value :: npfloat
  v_intrinsic_value :: npfloat
  v_upside :: npfloat

definition dcf ::
  "real \<Rightarrow> dataframe \<Rightarrow> dataframe \<Rightarrow> dataframe \<Rightarrow> real \<Rightarrow> py_error + valuation" where
  "dcf market_price cashflow income_stmt balance_sheet risk_free_rate =
     (case fcf_block cashflow of
        Inl e \<Rightarrow> Inl e
      | Inr env \<Rightarrow>
     (case fcf_cagr (env_fcf_forecast env) (env_fcf_raw env) of
        Inl e \<Rightarrow> Inl e
      | Inr cagr \<Rightarrow>
     (case capital_structure balance_sheet of
        Inl e \<Rightarrow> Inl e
      | Inr cs \<Rightarrow>
     (case cost_of_debt income_stmt (cs_total_debt cs) of
        Inl e \<Rightarrow> Inl e
      | Inr dc \<Rightarrow>
     (let coe = cost_of_equity risk_free_rate;
          w = wacc (cs_total_equity cs) (cs_total_debt cs) coe (dc_after_tax_cod dc)
      in
      case discounted_fcfs (env_fcf_forecast env) w of
        Inl e \<Rightarrow> Inl e
      | Inr dfs \<Rightarrow>
     (let dt = discounted_terminal (env_terminal_value env) w;
          ev = enterprise_value dfs dt;
          eqv = equity_value ev (cs_net_debt cs);
          iv = intrinsic_value eqv (cs_shares_outstanding cs)
      in
      Inr \<lparr>v_fcf_forecast = env_fcf_forecast env,
           v_terminal_value = env_terminal_value env,
           v_fcf_cagr = cagr,
           v_capital = cs,
           v_debt_cost = dc,
           v_cost_of_equity = coe,
           v_wacc = w,
           v_discounted_fcfs = dfs,
           v_discounted_terminal = dt,
           v_enterprise_value = ev,
           v_equity_value = eqv,
           v_intrinsic_value = iv,
           v_upside = upside iv market_price\<rparr>))))))"

section \<open>Auxiliary facts\<close>

lemma upt_1_6: "[1..<6] = [1, 2, 3, 4, 5]"
  by (simp add: upt_rec)

lemma length_fcf_forecast: "length (fcf_forecast b) = 5"
  by (simp add: fcf_forecast_def)

lemma fcf_forecast_nth:
  "i \<in> {1..5} \<Longrightarrow> fcf_forecast b ! (i - 1) = b * 1.17 ^ i"
proof -
  assume "i \<in> {1..5}"
  then have "i = 1 \<or> i = 2 \<or> i = 3 \<or> i = 4 \<or> i = 5" by auto
  then show ?thesis
    unfolding fcf_forecast_def growth_rate_def upt_1_6 by auto
qed

lemma last_fcf_forecast: "last (fcf_forecast b) = b * 1.17 ^ 5"
  unfolding fcf_forecast_def growth_rate_def upt_1_6 by simp

lemma fcf_block_present:
  assumes "cashflow fcf_line = Some row" and "row \<noteq> []"
  shows "fcf_block cashflow =
           Inr \<lparr>env_fcf_raw = Some (fcf_raw row),
                env_fcf_forecast = fcf_forecast (base_value (fcf_raw row)),
                env_terminal_value = terminal_value (fcf_forecast (base_value (fcf_raw row)))\<rparr>"
  using assms by (simp add: fcf_block_def forecast_years_def years_def fcf_raw_def Let_def)

lemma fcf_block_absent:
  assumes "cashflow fcf_line = None"
  shows "fcf_block cashflow =
           Inr \<lparr>env_fcf_raw = None, env_fcf_forecast = [0, 0, 0, 0, 0], env_terminal_value = 0\<rparr>"
  using assms by (simp add: fcf_block_def numeral_eq_Suc)

lemma discount_factors_expand:
  "discount_factors w = [(1 + w) ^ 1, (1 + w) ^ 2, (1 + w) ^ 3, (1 + w) ^ 4, (1 + w) ^ 5]"
  unfolding discount_factors_def upt_1_6 by simp

lemma discounted_fcfs_five:
  "discounted_fcfs [f1, f2, f3, f4, f5] w =
     Inr [np_div (Fin f1) ((1 + w) ^ 1), np_div (Fin f2) ((1 + w) ^ 2),
          np_div (Fin f3) ((1 + w) ^ 3), np_div (Fin f4) ((1 + w) ^ 4),
          np_div (Fin f5) ((1 + w) ^ 5)]"
  unfolding discounted_fcfs_def discount_factors_expand np_divide_def by simp

lemma dcf_fcf_line_absent:
  "cashflow fcf_line = None \<Longrightarrow> dcf mp cashflow inc bs rf = Inl NameError"
  by (simp add: dcf_def fcf_block_def fcf_cagr_def)

lemma safe_get_absent: "df label = None \<Longrightarrow> safe_get df label d = Inr d"
  by (simp add: safe_get_def)

lemma capital_structure_Inr:
  assumes "capital_structure bs = Inr cs"
  shows "safe_get bs ''Total Equity Gross Minority Interest'' 0 = Inr (cs_total_equity cs)
       \<and> safe_get bs ''Total Debt'' 0 = Inr (cs_total_debt cs)
       \<and> safe_get bs ''Cash And Cash Equivalents'' 0 = Inr (cs_cash cs)
       \<and> safe_get bs ''Ordinary Shares Number'' 0 = Inr (cs_shares_outstanding cs)
       \<and> cs_net_debt cs = net_debt (cs_total_debt cs) (cs_cash cs)"
  using assms by (auto simp add: capital_structure_def split: sum.splits)

lemma dcf_upside:
  assumes "dcf mp cashflow income_stmt balance_sheet rf = Inr v"
  shows "v_upside v = upside (v_intrinsic_value v) mp"
  using assms by (auto simp add: dcf_def Let_def split: sum.splits)

lemma dcf_intrinsic_value:
  assumes "dcf mp cashflow income_stmt balance_sheet rf = Inr v"
  shows "v_intrinsic_value v
           = intrinsic_value (v_equity_value v) (cs_shares_outstanding (v_capital v))"
  using assms by (auto simp add: dcf_def Let_def split: sum.splits)

lemma upside_zero_price: "upside iv 0 = NonFinite"
  by (cases iv) (simp_all add: upside_def)

lemma dcf_example:
  "\<exists>v. dcf 0 [fcf_line \<mapsto> [(2024, 4), (2023, 3), (2022, 2), (2021, 0)]]
            Map.empty Map.empty 5.5 = Inr v"
  by (simp add: dcf_def fcf_block_present fcf_cagr_def fcf_raw_def capital_structure_def
      cost_of_debt_def safe_get_def discounted_fcfs_def np_divide_def discount_factors_def
      length_fcf_forecast Let_def)

section \<open>Properties\<close>

text \<open>
  C1. When the cash-flow statement has no \<^verbatim>\<open>Free Cash Flow\<close> line, the forecast block
  leaves the forecast \<open>[0, 0, 0, 0, 0]\<close> and the terminal value \<open>0\<close>, but the next statement
  (line 129) reads \<^verbatim>\<open>fcf_raw\<close>, which that branch never assigned: the computation stops
  with \<^verbatim>\<open>NameError\<close> and no valuation is produced. Evaluated on a statement that
  holds one other line.
\<close>

theorem missing_fcf_line_raises:
  "fcf_block [''Operating Cash Flow'' \<mapsto> [(2024, 500)]]
     = Inr \<lparr>env_fcf_raw = None, env_fcf_forecast = [0, 0, 0, 0, 0], env_terminal_value = 0\<rparr>
   \<and> fcf_cagr [0, 0, 0, 0, 0] None = Inl NameError
   \<and> dcf 100 [''Operating Cash Flow'' \<mapsto> [(2024, 500)]] Map.empty Map.empty 5.5
       = Inl NameError"
  by (simp add: dcf_def fcf_block_def fcf_cagr_def fcf_line_def numeral_eq_Suc)

text \<open>
  C2. If total capital is nonzero, WACC is the equity share times the cost of equity plus
  the debt share times the after-tax cost of debt over 100; if total capital is zero, WACC
  is the fallback 0.10. With equity 700, debt 300, cost of equity 0.10 and after-tax cost
  of debt 4 (percent), WACC is 0.082.
\<close>

theorem wacc_formula:
  "(te + td \<noteq> 0 \<longrightarrow>
      wacc te td coe atcod = (te / (te + td)) * coe + (td / (te + td)) * atcod / 100)
   \<and> (te + td = 0 \<longrightarrow> wacc te td coe atcod = 0.10)
   \<and> wacc 700 300 0.10 4 = 0.082"
  by (simp add: wacc_def equity_weight_def debt_weight_def total_capital_def)

theorem wacc_formula_witness:
  "(700::real) + 300 \<noteq> 0
   \<and> wacc 700 300 0.10 4 = (700 / (700 + 300)) * 0.10 + (300 / (700 + 300)) * 4 / 100
   \<and> (1::real) + (- 1) = 0
   \<and> wacc 1 (- 1) 0.10 4 = 0.10"
  using wacc_formula [of 700 300 "0.10" 4] wacc_formula [of 1 "- 1" "0.10" 4]
  by simp

text \<open>
  C3. For four historical values \<open>a, b, c, d\<close> (oldest first, as \<open>fcf_raw\<close> holds them)
  the forecast has five entries, the entry of year \<open>i\<close> is the mean of the four times
  \<open>1.17 ^ i\<close>, and the terminal value is the entry of year 5 times \<open>1.03\<close>.
\<close>

theorem fcf_forecast_formula:
  assumes "cashflow fcf_line = Some row"
    and "fcf_raw row = [(ya, a), (yb, b), (yc, c), (yd, d)]"
  shows "\<exists>env. fcf_block cashflow = Inr env
           \<and> length (env_fcf_forecast env) = 5
           \<and> (\<forall>i\<in>{1..5}. env_fcf_forecast env ! (i - 1) = ((a + b + c + d) / 4) * 1.17 ^ i)
           \<and> env_terminal_value env = env_fcf_forecast env ! (5 - 1) * 1.03"
proof -
  define base where "base = (a + b + c + d) / 4"
  define env where
    "env = \<lparr>env_fcf_raw = Some (fcf_raw row),
            env_fcf_forecast = fcf_forecast base,
            env_terminal_value = terminal_value (fcf_forecast base)\<rparr>"
  from assms(2) have ne: "row \<noteq> []"
    by (auto simp add: fcf_raw_def)
  have bv: "base_value (fcf_raw row) = base"
    by (simp add: assms(2) base_value_def base_def)
  have blk: "fcf_block cashflow = Inr env"
    using fcf_block_present [of cashflow row, OF assms(1) ne]
    by (simp only: bv env_def)
  have len: "length (env_fcf_forecast env) = 5"
    by (simp add: env_def length_fcf_forecast)
  have nth: "\<forall>i\<in>{1..5}. env_fcf_forecast env ! (i - 1) = base * 1.17 ^ i"
  proof
    fix i :: nat
    assume "i \<in> {1..5}"
    then have "fcf_forecast base ! (i - 1) = base * 1.17 ^ i"
      by (rule fcf_forecast_nth)
    then show "env_fcf_forecast env ! (i - 1) = base * 1.17 ^ i"
      by (simp add: env_def)
  qed
  have tv: "env_terminal_value env = env_fcf_forecast env ! (5 - 1) * 1.03"
    unfolding env_def terminal_value_def fcf_forecast_def upt_1_6 by simp
  from blk len nth tv show ?thesis
    unfolding base_def by blast
qed

theorem fcf_forecast_formula_witness:
  "\<exists>env. fcf_block [fcf_line \<mapsto> [(2024, 4), (2023, 3), (2022, 2), (2021, 1)]] = Inr env
     \<and> env_fcf_forecast env ! 0 = 2.5 * 1.17
     \<and> env_fcf_forecast env ! 4 = 2.5 * 1.17 ^ 5
     \<and> env_terminal_value env = env_fcf_forecast env ! 4 * 1.03"
proof -
  let ?row = "[(2024, 4), (2023, 3), (2022, 2), (2021, 1)] :: series"
  let ?cf = "[fcf_line \<mapsto> ?row]"
  have h1: "?cf fcf_line = Some ?row" by simp
  have h2: "fcf_raw ?row = [(2021, 1), (2022, 2), (2023, 3), (2024, 4)]"
    by (simp add: fcf_raw_def)
  have m1: "(1::nat) \<in> {1..5}" and m5: "(5::nat) \<in> {1..5}" by simp_all
  from fcf_forecast_formula [of ?cf ?row, OF h1 h2] m1 m5
  show ?thesis by fastforce
qed

text \<open>
  C4, as amended. For a five-entry forecast and a rate with \<open>1 + wacc\<close> not zero, the
  discounted cash flow of year \<open>i\<close> is the projected one divided by \<open>(1 + wacc) ^ i\<close>, the
  discounted terminal value is the terminal value divided by \<open>(1 + wacc) ^ 5\<close>, and the
  enterprise value is the sum of the five discounted cash flows plus the discounted
  terminal value. For \<open>1 + wacc = 0\<close> every divisor is zero, and the discounted values and
  the enterprise value are not finite numbers. With a rate of \<open>0.10\<close> and \<open>121\<close> in year 2
  the discounted value is the quotient \<open>121 / 1.10\<^sup>2\<close>, which as a real number is \<open>100\<close>.
\<close>

theorem discounting_formula:
  "(1 + w \<noteq> 0 \<longrightarrow>
        discounted_fcfs [f1, f2, f3, f4, f5] w =
          Inr [Fin (f1 / (1 + w) ^ 1), Fin (f2 / (1 + w) ^ 2), Fin (f3 / (1 + w) ^ 3),
               Fin (f4 / (1 + w) ^ 4), Fin (f5 / (1 + w) ^ 5)]
        \<and> discounted_terminal tv w = Fin (tv / (1 + w) ^ 5)
        \<and> enterprise_value
             [Fin (f1 / (1 + w) ^ 1), Fin (f2 / (1 + w) ^ 2), Fin (f3 / (1 + w) ^ 3),
              Fin (f4 / (1 + w) ^ 4), Fin (f5 / (1 + w) ^ 5)]
             (discounted_terminal tv w)
           = Fin (f1 / (1 + w) ^ 1 + f2 / (1 + w) ^ 2 + f3 / (1 + w) ^ 3
                  + f4 / (1 + w) ^ 4 + f5 / (1 + w) ^ 5 + tv / (1 + w) ^ 5))
   \<and> (1 + w = 0 \<longrightarrow>
        discounted_fcfs [f1, f2, f3, f4, f5] w =
          Inr [NonFinite, NonFinite, NonFinite, NonFinite, NonFinite]
        \<and> discounted_terminal tv w = NonFinite
        \<and> enterprise_value [NonFinite, NonFinite, NonFinite, NonFinite, NonFinite]
             (discounted_terminal tv w) = NonFinite)
   \<and> discounted_fcfs [0, 121, 0, 0, 0] 0.10
       = Inr [Fin 0, Fin (121 / (1 + 0.10) ^ 2), Fin 0, Fin 0, Fin 0]
   \<and> 121 / (1 + 0.10) ^ 2 = (100 :: real)"
proof -
  have sq: "121 / (1 + 0.10) ^ 2 = (100 :: real)"
    by (simp add: power2_eq_square)
  have ex: "discounted_fcfs [0, 121, 0, 0, 0] 0.10
              = Inr [Fin 0, Fin (121 / (1 + 0.10) ^ 2), Fin 0, Fin 0, Fin 0]"
    unfolding discounted_fcfs_five by simp
  have tv: "discounted_terminal tv w = np_div (Fin tv) ((1 + w) ^ 5)"
    by (simp add: discounted_terminal_def)
  have ev: "enterprise_value [Fin x1, Fin x2, Fin x3, Fin x4, Fin x5] (Fin t)
              = Fin (x1 + x2 + x3 + x4 + x5 + t)" for x1 x2 x3 x4 x5 t
    by (simp add: enterprise_value_def np_sum_def)
  have fin:
    "discounted_fcfs [f1, f2, f3, f4, f5] w =
          Inr [Fin (f1 / (1 + w) ^ 1), Fin (f2 / (1 + w) ^ 2), Fin (f3 / (1 + w) ^ 3),
               Fin (f4 / (1 + w) ^ 4), Fin (f5 / (1 + w) ^ 5)]
        \<and> discounted_terminal tv w = Fin (tv / (1 + w) ^ 5)
        \<and> enterprise_value
             [Fin (f1 / (1 + w) ^ 1), Fin (f2 / (1 + w) ^ 2), Fin (f3 / (1 + w) ^ 3),
              Fin (f4 / (1 + w) ^ 4), Fin (f5 / (1 + w) ^ 5)]
             (discounted_terminal tv w)
           = Fin (f1 / (1 + w) ^ 1 + f2 / (1 + w) ^ 2 + f3 / (1 + w) ^ 3
                  + f4 / (1 + w) ^ 4 + f5 / (1 + w) ^ 5 + tv / (1 + w) ^ 5)"
    if nz: "1 + w \<noteq> 0"
  proof -
    have d: "np_div (Fin x) ((1 + w) ^ n) = Fin (x / (1 + w) ^ n)" for x n
      using nz by simp
    show ?thesis
      unfolding discounted_fcfs_five tv d ev by simp
  qed
  have inf:
    "discounted_fcfs [f1, f2, f3, f4, f5] w =
          Inr [NonFinite, NonFinite, NonFinite, NonFinite, NonFinite]
        \<and> discounted_terminal tv w = NonFinite
        \<and> enterprise_value [NonFinite, NonFinite, NonFinite, NonFinite, NonFinite]
             (discounted_terminal tv w) = NonFinite"
    if z: "1 + w = 0"
    unfolding discounted_fcfs_five tv z
    by (simp add: enterprise_value_def np_sum_def)
  from fin inf ex sq show ?thesis
    by blast
qed

theorem discounting_formula_witness:
  "(1::real) + 0.10 \<noteq> 0
   \<and> discounted_fcfs [0, 121, 0, 0, 0] 0.10
       = Inr [Fin 0, Fin (121 / (1 + 0.10) ^ 2), Fin 0, Fin 0, Fin 0]
   \<and> discounted_terminal 5 0.10 = Fin (5 / (1 + 0.10) ^ 5)
   \<and> (1::real) + (- 1) = 0
   \<and> discounted_terminal 5 (- 1) = NonFinite"
proof -
  have nz: "(1::real) + 0.10 \<noteq> 0" and z: "(1::real) + (- 1) = 0"
    by simp_all
  from discounting_formula [of "0.10" 0 121 0 0 0 5] discounting_formula [of "- 1" 0 121 0 0 0 5]
    nz z
  show ?thesis by blast
qed

text \<open>
  C4 as stated fails at a rate of \<open>-1\<close>: every divisor \<open>(1 + wacc) ^ i\<close> is zero, and the
  discounted cash flows, the discounted terminal value and the enterprise value are not
  finite numbers but \<^verbatim>\<open>inf\<close> or \<^verbatim>\<open>nan\<close>.
\<close>

theorem discounting_zero_divisor_counterexample:
  "(1 + (- 1 :: real)) ^ 2 = 0
   \<and> discounted_fcfs [1, 1, 1, 1, 1] (- 1)
       = Inr [NonFinite, NonFinite, NonFinite, NonFinite, NonFinite]
   \<and> discounted_terminal 1 (- 1) = NonFinite
   \<and> enterprise_value [NonFinite, NonFinite, NonFinite, NonFinite, NonFinite]
        (discounted_terminal 1 (- 1)) = NonFinite"
  unfolding discounted_fcfs_five
  by (simp add: discounted_terminal_def enterprise_value_def np_sum_def)

text \<open>
  C5. With a nonzero number of shares the intrinsic value per share is the equity value
  divided by it; with zero shares it is \<open>0\<close>, whatever the equity value. The whole
  computation takes its intrinsic value from this function, so a run that finds no shares
  reports \<open>0\<close>.
\<close>

theorem intrinsic_value_guard:
  "(so \<noteq> 0 \<longrightarrow> intrinsic_value (Fin e) so = Fin (e / so))
   \<and> (so \<noteq> 0 \<longrightarrow> intrinsic_value eqv so = np_div eqv so)
   \<and> intrinsic_value eqv 0 = Fin 0
   \<and> (dcf mp cashflow income_stmt balance_sheet rf = Inr v \<longrightarrow>
        v_intrinsic_value v
          = intrinsic_value (v_equity_value v) (cs_shares_outstanding (v_capital v))
        \<and> (cs_shares_outstanding (v_capital v) = 0 \<longrightarrow> v_intrinsic_value v = Fin 0))"
proof -
  have 1: "so \<noteq> 0 \<longrightarrow> intrinsic_value (Fin e) so = Fin (e / so)"
    and 2: "so \<noteq> 0 \<longrightarrow> intrinsic_value eqv so = np_div eqv so"
    and 3: "intrinsic_value x 0 = Fin 0" for x
    by (simp_all add: intrinsic_value_def)
  have 4: "v_intrinsic_value v
          = intrinsic_value (v_equity_value v) (cs_shares_outstanding (v_capital v))
        \<and> (cs_shares_outstanding (v_capital v) = 0 \<longrightarrow> v_intrinsic_value v = Fin 0)"
    if r: "dcf mp cashflow income_stmt balance_sheet rf = Inr v"
    using dcf_intrinsic_value [OF r] 3 [of "v_equity_value v"] by simp
  from 1 2 3 [of eqv] 4 show ?thesis
    by blast
qed

theorem intrinsic_value_guard_witness:
  "(4::real) \<noteq> 0 \<and> intrinsic_value (Fin 10) 4 = Fin (10 / 4)
   \<and> intrinsic_value NonFinite 4 = NonFinite
   \<and> intrinsic_value (Fin 10) 0 = Fin 0
   \<and> (\<exists>v. dcf 0 [fcf_line \<mapsto> [(2024, 4), (2023, 3), (2022, 2), (2021, 0)]]
             Map.empty Map.empty 5.5 = Inr v
          \<and> v_intrinsic_value v
              = intrinsic_value (v_equity_value v) (cs_shares_outstanding (v_capital v)))"
proof -
  have h: "(4::real) \<noteq> 0" by simp
  have a: "intrinsic_value (Fin 10) 4 = Fin (10 / 4)"
    using intrinsic_value_guard [where so = 4 and e = 10] h by blast
  have "intrinsic_value NonFinite 4 = np_div NonFinite 4"
    using intrinsic_value_guard [where so = 4 and eqv = NonFinite] h by blast
  then have b: "intrinsic_value NonFinite 4 = NonFinite"
    by simp
  have c: "intrinsic_value (Fin 10) 0 = Fin 0"
    using intrinsic_value_guard [where eqv = "Fin 10"] by blast
  obtain v where v: "dcf 0 [fcf_line \<mapsto> [(2024, 4), (2023, 3), (2022, 2), (2021, 0)]]
            Map.empty Map.empty 5.5 = Inr v"
    using dcf_example by (elim exE)
  have "v_intrinsic_value v
          = intrinsic_value (v_equity_value v) (cs_shares_outstanding (v_capital v))"
    using intrinsic_value_guard
      [where mp = 0 and cashflow = "[fcf_line \<mapsto> [(2024, 4), (2023, 3), (2022, 2), (2021, 0)]]"
         and income_stmt = Map.empty and balance_sheet = Map.empty and rf = "5.5" and v = v] v
    by blast
  with v have d: "\<exists>v. dcf 0 [fcf_line \<mapsto> [(2024, 4), (2023, 3), (2022, 2), (2021, 0)]]
             Map.empty Map.empty 5.5 = Inr v
          \<and> v_intrinsic_value v
              = intrinsic_value (v_equity_value v) (cs_shares_outstanding (v_capital v))"
    by (intro exI conjI)
  from h a b c d show ?thesis by (intro conjI)
qed

text \<open>
  C6. The pretax cost of debt is interest expense over total debt times 100 when both are
  nonzero, and the fallback \<open>5\<close> when either is zero; an absent interest-expense line reads
  as \<open>0\<close> and so gives the fallback too. The after-tax cost is the pretax cost times one
  minus the tax rate, and the tax rate is \<open>0.241\<close> when its line is absent.
\<close>

theorem cost_of_debt_formula:
  "(cost_of_debt income_stmt td = Inr dc \<longrightarrow>
      (dc_interest_expense dc \<noteq> 0 \<and> td \<noteq> 0 \<longrightarrow>
         dc_pretax_cod dc = dc_interest_expense dc / td * 100)
      \<and> (dc_interest_expense dc = 0 \<or> td = 0 \<longrightarrow> dc_pretax_cod dc = 5)
      \<and> (income_stmt ''Interest Expense'' = None \<longrightarrow>
           dc_interest_expense dc = 0 \<and> dc_pretax_cod dc = 5)
      \<and> dc_after_tax_cod dc = dc_pretax_cod dc * (1 - dc_tax_rate dc)
      \<and> (income_stmt ''Tax Rate For Calcs'' = None \<longrightarrow> dc_tax_rate dc = 0.241))
   \<and> (income_stmt ''Interest Expense'' = None \<and> income_stmt ''Tax Rate For Calcs'' = None \<longrightarrow>
        cost_of_debt income_stmt td =
          Inr \<lparr>dc_interest_expense = 0, dc_tax_rate = 0.241,
               dc_pretax_cod = 5, dc_after_tax_cod = 5 * (1 - 0.241)\<rparr>)"
  by (auto simp add: cost_of_debt_def safe_get_def pretax_cod_def after_tax_cod_def
      split: option.splits list.splits sum.splits)

theorem cost_of_debt_formula_witness:
  "(\<exists>dc. cost_of_debt [''Interest Expense'' \<mapsto> [(2024, 30)],
                        ''Tax Rate For Calcs'' \<mapsto> [(2024, 0.2)]] 300 = Inr dc
         \<and> dc_interest_expense dc \<noteq> 0 \<and> (300::real) \<noteq> 0
         \<and> dc_pretax_cod dc = 10 \<and> dc_after_tax_cod dc = 8)
   \<and> (\<exists>dc. cost_of_debt Map.empty 300 = Inr dc
         \<and> dc_interest_expense dc = 0 \<and> dc_pretax_cod dc = 5 \<and> dc_tax_rate dc = 0.241)"
proof -
  let ?inc = "[''Interest Expense'' \<mapsto> [(2024, 30)],
               ''Tax Rate For Calcs'' \<mapsto> [(2024, 0.2)]] :: dataframe"
  let ?dc = "\<lparr>dc_interest_expense = 30, dc_tax_rate = 0.2,
              dc_pretax_cod = 10, dc_after_tax_cod = 8\<rparr>"
  have run: "cost_of_debt ?inc 300 = Inr ?dc"
    by (simp add: cost_of_debt_def safe_get_def pretax_cod_def after_tax_cod_def)
  have a: "dc_pretax_cod ?dc = dc_interest_expense ?dc / 300 * 100"
    using cost_of_debt_formula [of ?inc 300 ?dc] run by simp
  have e1: "(Map.empty :: dataframe) ''Interest Expense'' = None"
    and e2: "(Map.empty :: dataframe) ''Tax Rate For Calcs'' = None"
    by simp_all
  from cost_of_debt_formula [of Map.empty 300] e1 e2
  have b: "cost_of_debt Map.empty 300 =
          Inr \<lparr>dc_interest_expense = 0, dc_tax_rate = 0.241,
               dc_pretax_cod = 5, dc_after_tax_cod = 5 * (1 - 0.241)\<rparr>"
    by blast
  show ?thesis
    using run a b by simp
qed

text \<open>
  C7, as amended. For four historical values whose first (oldest) value \<open>a\<close> is not zero
  and for which the last forecast value over \<open>a\<close> is not negative, the growth rate is the
  power \<open>1/9\<close> of that quotient, minus one. Where the quotient is negative the power, and
  with it the growth rate, is \<^verbatim>\<open>nan\<close>. If \<open>a\<close> is zero the growth rate is \<open>0\<close>.
\<close>

theorem fcf_cagr_formula:
  assumes "cashflow fcf_line = Some row"
    and "fcf_raw row = [(ya, a), (yb, b), (yc, c), (yd, d)]"
  shows "\<exists>env. fcf_block cashflow = Inr env
           \<and> last (env_fcf_forecast env) = ((a + b + c + d) / 4) * 1.17 ^ 5
           \<and> (a \<noteq> 0 \<and> 0 \<le> last (env_fcf_forecast env) / a \<longrightarrow>
                fcf_cagr (env_fcf_forecast env) (env_fcf_raw env)
                  = Inr (Fin ((last (env_fcf_forecast env) / a) powr (1 / 9) - 1)))
           \<and> (a \<noteq> 0 \<and> last (env_fcf_forecast env) / a < 0 \<longrightarrow>
                fcf_cagr (env_fcf_forecast env) (env_fcf_raw env) = Inr NonFinite)
           \<and> (a = 0 \<longrightarrow>
                fcf_cagr (env_fcf_forecast env) (env_fcf_raw env) = Inr (Fin 0))"
proof -
  define base where "base = (a + b + c + d) / 4"
  define env where
    "env = \<lparr>env_fcf_raw = Some (fcf_raw row),
            env_fcf_forecast = fcf_forecast base,
            env_terminal_value = terminal_value (fcf_forecast base)\<rparr>"
  define F where "F = last (env_fcf_forecast env)"
  from assms(2) have ne: "row \<noteq> []"
    by (auto simp add: fcf_raw_def)
  have bv: "base_value (fcf_raw row) = base"
    by (simp add: assms(2) base_value_def base_def)
  have blk: "fcf_block cashflow = Inr env"
    using fcf_block_present [of cashflow row, OF assms(1) ne]
    by (simp only: bv env_def)
  have lst: "F = base * 1.17 ^ 5"
    by (simp add: F_def env_def last_fcf_forecast)
  have nonempty: "env_fcf_forecast env \<noteq> []"
    using length_fcf_forecast [of base] by (auto simp add: env_def)
  have raw: "env_fcf_raw env = Some [(ya, a), (yb, b), (yc, c), (yd, d)]"
    by (simp add: env_def assms(2))
  have cagr: "fcf_cagr (env_fcf_forecast env) (env_fcf_raw env) =
                (if a \<noteq> 0 then Inr (np_sub (np_power (F / a) (1 / 9)) (Fin 1)) else Inr (Fin 0))"
    using nonempty by (simp add: fcf_cagr_def raw F_def)
  have pos: "np_sub (np_power (F / a) (1 / 9)) (Fin 1) = Fin ((F / a) powr (1 / 9) - 1)"
    if "0 \<le> F / a"
    using that by (simp add: np_power_def)
  have neg: "np_sub (np_power (F / a) (1 / 9)) (Fin 1) = NonFinite" if "F / a < 0"
    using that by (simp add: np_power_def)
  have "fcf_block cashflow = Inr env
           \<and> F = base * 1.17 ^ 5
           \<and> (a \<noteq> 0 \<and> 0 \<le> F / a \<longrightarrow>
                fcf_cagr (env_fcf_forecast env) (env_fcf_raw env)
                  = Inr (Fin ((F / a) powr (1 / 9) - 1)))
           \<and> (a \<noteq> 0 \<and> F / a < 0 \<longrightarrow>
                fcf_cagr (env_fcf_forecast env) (env_fcf_raw env) = Inr NonFinite)
           \<and> (a = 0 \<longrightarrow>
                fcf_cagr (env_fcf_forecast env) (env_fcf_raw env) = Inr (Fin 0))"
    using blk lst cagr pos neg by simp
  then show ?thesis
    unfolding F_def base_def by blast
qed

theorem fcf_cagr_formula_witness:
  "(\<exists>env. fcf_block [fcf_line \<mapsto> [(2024, 4), (2023, 3), (2022, 2), (2021, 1)]] = Inr env
      \<and> fcf_cagr (env_fcf_forecast env) (env_fcf_raw env)
           = Inr (Fin ((last (env_fcf_forecast env) / 1) powr (1 / 9) - 1)))
   \<and> (\<exists>env. fcf_block [fcf_line \<mapsto> [(2024, 3), (2023, 3), (2022, 3), (2021, - 1)]] = Inr env
      \<and> fcf_cagr (env_fcf_forecast env) (env_fcf_raw env) = Inr NonFinite)
   \<and> (\<exists>env. fcf_block [fcf_line \<mapsto> [(2024, 4), (2023, 3), (2022, 2), (2021, 0)]] = Inr env
      \<and> fcf_cagr (env_fcf_forecast env) (env_fcf_raw env) = Inr (Fin 0))"
proof -
  let ?r1 = "[(2024, 4), (2023, 3), (2022, 2), (2021, 1)] :: series"
  let ?r2 = "[(2024, 3), (2023, 3), (2022, 3), (2021, - 1)] :: series"
  let ?r3 = "[(2024, 4), (2023, 3), (2022, 2), (2021, 0)] :: series"
  have a1: "[fcf_line \<mapsto> ?r1] fcf_line = Some ?r1"
    and a2: "[fcf_line \<mapsto> ?r2] fcf_line = Some ?r2"
    and a3: "[fcf_line \<mapsto> ?r3] fcf_line = Some ?r3"
    by simp_all
  have b1: "fcf_raw ?r1 = [(2021, 1), (2022, 2), (2023, 3), (2024, 4)]"
    and b2: "fcf_raw ?r2 = [(2021, - 1), (2022, 3), (2023, 3), (2024, 3)]"
    and b3: "fcf_raw ?r3 = [(2021, 0), (2022, 2), (2023, 3), (2024, 4)]"
    by (simp_all add: fcf_raw_def)
  have w1: "\<exists>env. fcf_block [fcf_line \<mapsto> ?r1] = Inr env
      \<and> fcf_cagr (env_fcf_forecast env) (env_fcf_raw env)
           = Inr (Fin ((last (env_fcf_forecast env) / 1) powr (1 / 9) - 1))"
  proof -
    from fcf_cagr_formula [of "[fcf_line \<mapsto> ?r1]" ?r1, OF a1 b1]
    obtain env where e: "fcf_block [fcf_line \<mapsto> ?r1] = Inr env"
      and l: "last (env_fcf_forecast env) = (((1::real) + 2 + 3 + 4) / 4) * 1.17 ^ 5"
      and p: "(1::real) \<noteq> 0 \<and> 0 \<le> last (env_fcf_forecast env) / 1 \<longrightarrow>
                fcf_cagr (env_fcf_forecast env) (env_fcf_raw env)
                  = Inr (Fin ((last (env_fcf_forecast env) / 1) powr (1 / 9) - 1))"
      by (elim exE conjE)
    have "(1::real) \<noteq> 0 \<and> 0 \<le> last (env_fcf_forecast env) / 1"
      unfolding l by simp
    with p have "fcf_cagr (env_fcf_forecast env) (env_fcf_raw env)
                  = Inr (Fin ((last (env_fcf_forecast env) / 1) powr (1 / 9) - 1))"
      by (rule mp)
    with e show ?thesis by (intro exI conjI)
  qed
  have w2: "\<exists>env. fcf_block [fcf_line \<mapsto> ?r2] = Inr env
      \<and> fcf_cagr (env_fcf_forecast env) (env_fcf_raw env) = Inr NonFinite"
  proof -
    from fcf_cagr_formula [of "[fcf_line \<mapsto> ?r2]" ?r2, OF a2 b2]
    obtain env where e: "fcf_block [fcf_line \<mapsto> ?r2] = Inr env"
      and l: "last (env_fcf_forecast env) = (((- 1::real) + 3 + 3 + 3) / 4) * 1.17 ^ 5"
      and p: "(- 1::real) \<noteq> 0 \<and> last (env_fcf_forecast env) / (- 1) < 0 \<longrightarrow>
                fcf_cagr (env_fcf_forecast env) (env_fcf_raw env) = Inr NonFinite"
      by (elim exE conjE)
    have "(- 1::real) \<noteq> 0 \<and> last (env_fcf_forecast env) / (- 1) < 0"
      unfolding l by simp
    with p have "fcf_cagr (env_fcf_forecast env) (env_fcf_raw env) = Inr NonFinite"
      by (rule mp)
    with e show ?thesis by (intro exI conjI)
  qed
  have w3: "\<exists>env. fcf_block [fcf_line \<mapsto> ?r3] = Inr env
      \<and> fcf_cagr (env_fcf_forecast env) (env_fcf_raw env) = Inr (Fin 0)"
  proof -
    from fcf_cagr_formula [of "[fcf_line \<mapsto> ?r3]" ?r3, OF a3 b3]
    obtain env where e: "fcf_block [fcf_line \<mapsto> ?r3] = Inr env"
      and p: "(0::real) = 0 \<longrightarrow>
                fcf_cagr (env_fcf_forecast env) (env_fcf_raw env) = Inr (Fin 0)"
      by (elim exE conjE)
    from p have "fcf_cagr (env_fcf_forecast env) (env_fcf_raw env) = Inr (Fin 0)"
      by simp
    with e show ?thesis by (intro exI conjI)
  qed
  from w1 w2 w3 show ?thesis by (intro conjI)
qed

text \<open>
  C7 as stated fails where the first value and the mean have opposite signs: for the
  history \<open>-1, 3, 3, 3\<close> the first value is not zero, the last forecast value is
  \<open>2 * 1.17 ^ 5\<close>, the quotient is negative, and the growth rate is \<^verbatim>\<open>nan\<close>, not a number
  given by the formula.
\<close>

theorem fcf_cagr_negative_counterexample:
  "fcf_block [fcf_line \<mapsto> [(2024, 3), (2023, 3), (2022, 3), (2021, - 1)]]
     = Inr \<lparr>env_fcf_raw = Some [(2021, - 1), (2022, 3), (2023, 3), (2024, 3)],
            env_fcf_forecast = fcf_forecast 2,
            env_terminal_value = terminal_value (fcf_forecast 2)\<rparr>
   \<and> (- 1 :: real) \<noteq> 0
   \<and> last (fcf_forecast 2) = 2 * 1.17 ^ 5
   \<and> fcf_cagr (fcf_forecast 2) (Some [(2021, - 1), (2022, 3), (2023, 3), (2024, 3)])
       = Inr NonFinite"
proof -
  let ?row = "[(2024, 3), (2023, 3), (2022, 3), (2021, - 1)] :: series"
  have raw: "fcf_raw ?row = [(2021, - 1), (2022, 3), (2023, 3), (2024, 3)]"
    by (simp add: fcf_raw_def)
  have bv: "base_value [(2021, - 1), (2022, 3), (2023, 3), (2024, 3)] = 2"
    by (simp add: base_value_def)
  have blk: "fcf_block [fcf_line \<mapsto> ?row]
     = Inr \<lparr>env_fcf_raw = Some [(2021, - 1), (2022, 3), (2023, 3), (2024, 3)],
            env_fcf_forecast = fcf_forecast 2,
            env_terminal_value = terminal_value (fcf_forecast 2)\<rparr>"
    using fcf_block_present [of "[fcf_line \<mapsto> ?row]" ?row]
    by (simp add: raw bv)
  have ne: "fcf_forecast 2 \<noteq> []"
    using length_fcf_forecast [of 2] by auto
  have neg: "last (fcf_forecast 2) / (- 1) < 0"
    unfolding last_fcf_forecast by simp
  have cagr: "fcf_cagr (fcf_forecast 2) (Some [(2021, - 1), (2022, 3), (2023, 3), (2024, 3)])
       = Inr NonFinite"
    using ne neg by (simp add: fcf_cagr_def np_power_def)
  have one: "(- 1 :: real) \<noteq> 0" by simp
  from blk one last_fcf_forecast [of 2] cagr show ?thesis
    by (intro conjI)
qed

text \<open>
  C8. A lookup of a label the statement does not have returns the default handed to it.
  In the capital structure the defaults are \<open>0\<close>, net debt is total debt minus cash, and
  total capital is total equity plus total debt; with none of the four labels present all
  values are \<open>0\<close>.
\<close>

theorem capital_structure_defaults:
  "(df label = None \<longrightarrow> safe_get df label d = Inr d)
   \<and> (capital_structure bs = Inr cs \<longrightarrow>
        cs_net_debt cs = cs_total_debt cs - cs_cash cs
        \<and> total_capital (cs_total_equity cs) (cs_total_debt cs)
            = cs_total_equity cs + cs_total_debt cs
        \<and> (bs ''Total Equity Gross Minority Interest'' = None \<longrightarrow> cs_total_equity cs = 0)
        \<and> (bs ''Total Debt'' = None \<longrightarrow> cs_total_debt cs = 0)
        \<and> (bs ''Cash And Cash Equivalents'' = None \<longrightarrow> cs_cash cs = 0)
        \<and> (bs ''Ordinary Shares Number'' = None \<longrightarrow> cs_shares_outstanding cs = 0))
   \<and> (bs ''Total Equity Gross Minority Interest'' = None \<and> bs ''Total Debt'' = None
        \<and> bs ''Cash And Cash Equivalents'' = None \<and> bs ''Ordinary Shares Number'' = None \<longrightarrow>
        capital_structure bs =
          Inr \<lparr>cs_total_equity = 0, cs_total_debt = 0, cs_cash = 0,
               cs_net_debt = 0, cs_shares_outstanding = 0\<rparr>)"
proof (intro conjI impI)
  assume "df label = None"
  then show "safe_get df label d = Inr d" by (rule safe_get_absent)
next
  assume r: "capital_structure bs = Inr cs"
  note f = capital_structure_Inr [OF r]
  show "cs_net_debt cs = cs_total_debt cs - cs_cash cs"
    using f by (simp add: net_debt_def)
  show "total_capital (cs_total_equity cs) (cs_total_debt cs)
          = cs_total_equity cs + cs_total_debt cs"
    by (simp add: total_capital_def)
  show "cs_total_equity cs = 0" if "bs ''Total Equity Gross Minority Interest'' = None"
    using f that by (simp add: safe_get_def)
  show "cs_total_debt cs = 0" if "bs ''Total Debt'' = None"
    using f that by (simp add: safe_get_def)
  show "cs_cash cs = 0" if "bs ''Cash And Cash Equivalents'' = None"
    using f that by (simp add: safe_get_def)
  show "cs_shares_outstanding cs = 0" if "bs ''Ordinary Shares Number'' = None"
    using f that by (simp add: safe_get_def)
next
  assume "bs ''Total Equity Gross Minority Interest'' = None \<and> bs ''Total Debt'' = None
        \<and> bs ''Cash And Cash Equivalents'' = None \<and> bs ''Ordinary Shares Number'' = None"
  then show "capital_structure bs =
          Inr \<lparr>cs_total_equity = 0, cs_total_debt = 0, cs_cash = 0,
               cs_net_debt = 0, cs_shares_outstanding = 0\<rparr>"
    by (simp add: capital_structure_def safe_get_absent net_debt_def)
qed

theorem capital_structure_defaults_witness:
  "(\<exists>cs. capital_structure [''Total Debt'' \<mapsto> [(2024, 300), (2023, 250)],
                            ''Cash And Cash Equivalents'' \<mapsto> [(2024, 100)]] = Inr cs
         \<and> cs_total_debt cs = 300 \<and> cs_cash cs = 100 \<and> cs_net_debt cs = 200
         \<and> cs_total_equity cs = 0 \<and> cs_shares_outstanding cs = 0
         \<and> total_capital (cs_total_equity cs) (cs_total_debt cs) = 300)
   \<and> safe_get Map.empty ''Tax Rate For Calcs'' 0.241 = Inr 0.241
   \<and> capital_structure Map.empty =
          Inr \<lparr>cs_total_equity = 0, cs_total_debt = 0, cs_cash = 0,
               cs_net_debt = 0, cs_shares_outstanding = 0\<rparr>"
proof -
  let ?bs = "[''Total Debt'' \<mapsto> [(2024, 300), (2023, 250)],
              ''Cash And Cash Equivalents'' \<mapsto> [(2024, 100)]] :: dataframe"
  let ?cs = "\<lparr>cs_total_equity = 0, cs_total_debt = 300, cs_cash = 100,
              cs_net_debt = 200, cs_shares_outstanding = 0\<rparr>"
  have run: "capital_structure ?bs = Inr ?cs"
    by (simp add: capital_structure_def safe_get_def net_debt_def)
  have a: "cs_net_debt ?cs = cs_total_debt ?cs - cs_cash ?cs
           \<and> total_capital (cs_total_equity ?cs) (cs_total_debt ?cs)
              = cs_total_equity ?cs + cs_total_debt ?cs"
    using capital_structure_defaults [of Map.empty "''x''" 0 ?bs ?cs] run by blast
  have e: "(Map.empty :: dataframe) l = None" for l by simp
  have b: "safe_get Map.empty ''Tax Rate For Calcs'' 0.241 = Inr 0.241"
    using capital_structure_defaults [of Map.empty "''Tax Rate For Calcs''" "0.241" Map.empty ?cs] e
    by blast
  have c: "capital_structure Map.empty =
          Inr \<lparr>cs_total_equity = 0, cs_total_debt = 0, cs_cash = 0,
               cs_net_debt = 0, cs_shares_outstanding = 0\<rparr>"
    using capital_structure_defaults [of Map.empty "''x''" 0 Map.empty ?cs] e
    by blast
  show ?thesis using run a b c by simp
qed

text \<open>
  C9, as amended. For a finite intrinsic value and a nonzero market price the upside is
  \<open>(iv - mp) / mp * 100\<close>. For a positive market price it is positive exactly when the
  intrinsic value exceeds the price and negative exactly when it is below; for a negative
  market price the signs are the other way round.
\<close>

theorem upside_formula:
  "(mp \<noteq> 0 \<longrightarrow> upside (Fin iv) mp = Fin ((iv - mp) / mp * 100))
   \<and> (0 < mp \<longrightarrow>
        (\<exists>u. upside (Fin iv) mp = Fin u \<and> (0 < u \<longleftrightarrow> mp < iv) \<and> (u < 0 \<longleftrightarrow> iv < mp)))
   \<and> (mp < 0 \<longrightarrow>
        (\<exists>u. upside (Fin iv) mp = Fin u \<and> (0 < u \<longleftrightarrow> iv < mp) \<and> (u < 0 \<longleftrightarrow> mp < iv)))"
proof (intro conjI impI)
  assume "mp \<noteq> 0"
  then show "upside (Fin iv) mp = Fin ((iv - mp) / mp * 100)"
    by (simp add: upside_def)
next
  assume pos: "0 < mp"
  have "upside (Fin iv) mp = Fin ((iv - mp) / mp * 100)"
    using pos by (simp add: upside_def)
  moreover have "0 < (iv - mp) / mp * 100 \<longleftrightarrow> mp < iv"
    using pos by (simp add: zero_less_divide_iff)
  moreover have "(iv - mp) / mp * 100 < 0 \<longleftrightarrow> iv < mp"
    using pos by (simp add: divide_less_0_iff)
  ultimately show "\<exists>u. upside (Fin iv) mp = Fin u \<and> (0 < u \<longleftrightarrow> mp < iv) \<and> (u < 0 \<longleftrightarrow> iv < mp)"
    by blast
next
  assume neg: "mp < 0"
  have "upside (Fin iv) mp = Fin ((iv - mp) / mp * 100)"
    using neg by (simp add: upside_def)
  moreover have "0 < (iv - mp) / mp * 100 \<longleftrightarrow> iv < mp"
    using neg by (simp add: zero_less_divide_iff)
  moreover have "(iv - mp) / mp * 100 < 0 \<longleftrightarrow> mp < iv"
    using neg by (simp add: divide_less_0_iff)
  ultimately show "\<exists>u. upside (Fin iv) mp = Fin u \<and> (0 < u \<longleftrightarrow> iv < mp) \<and> (u < 0 \<longleftrightarrow> mp < iv)"
    by blast
qed

theorem upside_formula_witness:
  "(50::real) \<noteq> 0 \<and> (0::real) < 50
   \<and> upside (Fin 75) 50 = Fin ((75 - 50) / 50 * 100)
   \<and> (\<exists>u. upside (Fin 75) 50 = Fin u \<and> (0 < u \<longleftrightarrow> (50::real) < 75))
   \<and> (- 1::real) < 0
   \<and> (\<exists>u. upside (Fin 0) (- 1) = Fin u \<and> (u < 0 \<longleftrightarrow> (- 1::real) < 0))"
proof -
  have h1: "(50::real) \<noteq> 0" and h2: "(0::real) < 50" and h3: "(- 1::real) < 0"
    by simp_all
  from upside_formula [of 50 75] upside_formula [of "- 1" 0] h1 h2 h3
  show ?thesis by blast
qed

text \<open>
  C9 as stated fails for a negative market price: with intrinsic value \<open>0\<close> and market
  price \<open>-1\<close> the intrinsic value exceeds the price, yet the upside is \<open>-100\<close>.
\<close>

theorem upside_sign_counterexample:
  "(- 1::real) \<noteq> 0 \<and> (- 1::real) < 0
   \<and> upside (Fin 0) (- 1) = Fin (- 100) \<and> \<not> (0::real) < - 100"
  by (simp add: upside_def)

text \<open>
  C10. The upside divides by the market price without a guard: at a market price of zero
  its value is not a finite number, in the function and in the result of the whole
  computation, while for a nonzero price it is the quotient. The other divisions have a
  fallback: the growth rate is \<open>0\<close> for a zero first value, the pretax cost of debt is \<open>5\<close>
  for a zero operand, the weights are \<open>0\<close> and WACC is \<open>0.1\<close> for zero total capital, and
  the intrinsic value is \<open>0\<close> for zero shares.
\<close>

theorem upside_unguarded:
  "upside iv 0 = NonFinite
   \<and> (dcf 0 cashflow income_stmt balance_sheet rf = Inr v \<longrightarrow> v_upside v = NonFinite)
   \<and> (mp \<noteq> 0 \<longrightarrow> upside (Fin x) mp = Fin ((x - mp) / mp * 100))
   \<and> fcf_cagr forecast (Some ((y, 0) # cells)) = Inr (Fin 0)
   \<and> pretax_cod ie 0 = 5 \<and> pretax_cod 0 td = 5
   \<and> equity_weight te (- te) = 0 \<and> debt_weight te (- te) = 0
   \<and> wacc te (- te) coe atcod = 0.1
   \<and> intrinsic_value eqv 0 = Fin 0"
proof -
  have 1: "dcf 0 cashflow income_stmt balance_sheet rf = Inr v \<longrightarrow> v_upside v = NonFinite"
    using dcf_upside [of 0 cashflow income_stmt balance_sheet rf v]
    by (simp add: upside_zero_price)
  have 2: "mp \<noteq> 0 \<longrightarrow> upside (Fin x) mp = Fin ((x - mp) / mp * 100)"
    by (simp add: upside_def)
  have 3: "fcf_cagr forecast (Some ((y, 0) # cells)) = Inr (Fin 0)"
    by (simp add: fcf_cagr_def)
  have 4: "pretax_cod ie 0 = 5 \<and> pretax_cod 0 td = 5"
    by (simp add: pretax_cod_def)
  have 5: "equity_weight te (- te) = 0 \<and> debt_weight te (- te) = 0
           \<and> wacc te (- te) coe atcod = 0.1"
    by (simp add: equity_weight_def debt_weight_def wacc_def total_capital_def)
  have 6: "intrinsic_value eqv 0 = Fin 0"
    by (simp add: intrinsic_value_def)
  from upside_zero_price [of iv] 1 2 3 4 5 6 show ?thesis
    by (intro conjI) blast+
qed

theorem upside_unguarded_witness:
  "(\<exists>v. dcf 0 [fcf_line \<mapsto> [(2024, 4), (2023, 3), (2022, 2), (2021, 0)]]
            Map.empty Map.empty 5.5 = Inr v \<and> v_upside v = NonFinite)
   \<and> (50::real) \<noteq> 0 \<and> upside (Fin 75) 50 = Fin ((75 - 50) / 50 * 100)"
proof -
  obtain v where v: "dcf 0 [fcf_line \<mapsto> [(2024, 4), (2023, 3), (2022, 2), (2021, 0)]]
            Map.empty Map.empty 5.5 = Inr v"
    using dcf_example by (elim exE)
  have "v_upside v = NonFinite"
    using upside_unguarded
      [of "Fin 0" "[fcf_line \<mapsto> [(2024, 4), (2023, 3), (2022, 2), (2021, 0)]]"
          Map.empty Map.empty "5.5" v] v
    by blast
  with v have a: "\<exists>v. dcf 0 [fcf_line \<mapsto> [(2024, 4), (2023, 3), (2022, 2), (2021, 0)]]
            Map.empty Map.empty 5.5 = Inr v \<and> v_upside v = NonFinite"
    by (intro exI conjI)
  have h: "(50::real) \<noteq> 0" by simp
  have b: "upside (Fin 75) 50 = Fin ((75 - 50) / 50 * 100)"
    using upside_unguarded [where mp = 50 and x = 75] h by blast
  from a h b show ?thesis by (intro conjI)
qed

end
